theory Spec2Isabelle
  imports Main "HOL-Library.Char_ord" "HOL-Library.List_Lexorder"
begin

section \<open>The reset command of internal/commands/reset.go\<close>

text \<open>
  The command \<open>reset\<close> drops and recreates the index database and then, stage by stage and
  after a confirmation each, removes the cache, the \<open>*.json\<close> and \<open>*.yml\<close> sidecar files and
  the \<open>*.yml\<close> album files. This theory embeds \<open>resetAction\<close>, \<open>resetIndexDb\<close>,
  \<open>resetCache\<close>, \<open>resetSidecarJson\<close> and \<open>resetSidecarYaml\<close> as state-passing functions.

  Everything the command calls outside its own file is a field of the record \<open>env\<close>: the
  flags of the command line, the configuration, the interactive prompt, the file-system
  primitives of the Go standard library and the collaborators of package \<open>entity\<close>. The
  functions of the command are defined for every such environment; the second half of the
  theory gives the environment of a Unix file system, with \<open>filepath.Match\<close>,
  \<open>filepath.Glob\<close>, \<open>os.Remove\<close> and \<open>os.RemoveAll\<close> written out.
\<close>

subsection \<open>Errors, files, the database and the observable events\<close>

datatype error =
    ErrBadPattern
  | ErrAbort
  | ErrInterrupt
  | ErrEOF
  | ENOENT
  | ENOTDIR
  | ENOTEMPTY
  | EINVAL
  | EBUSY
  | ErrOther string

text \<open>
  A file system is the tree below its root directory: a node is a regular file or a
  directory with named entries. There are no symbolic links.
\<close>

datatype node = File | Dir "(string \<times> node) list"

text \<open>
  Modelled from the spec: the index database behind \<open>conf.Db()\<close> and package \<open>entity\<close>, which
  are not part of the sources at hand. The spec names three operations, \<open>dropAll(handle)\<close>,
  \<open>migrate(force, quiet)\<close> and \<open>initAdminPassword(value)\<close>; the state they act on is the list
  of tables that exist and the credential of the administrator, which lives in a table.
\<close>

record db =
  db_tables :: "string list"
  db_admin_credential :: "string option"

datatype level = Warn | Info | Error

datatype arg = ArgInt nat | ArgErr error | ArgElapsed

text \<open>
  The events are what a run does to the outside, in program order: the lines it logs (format
  string and arguments; \<open>ArgElapsed\<close> stands for a measured duration, whose value is not
  modelled), what it prints, the prompts it shows and the calls it makes.
\<close>

datatype event =
    Log level string "arg list"
  | SetLevelTrace
  | Prompt string
  | Print string
  | CallInit
  | CallShutdown
  | CallSetDbProvider
  | CallDrop
  | CallMigrateDb bool bool
  | CallInitPassword string
  | CallGlob string
  | CallRemove string
  | CallRemoveAll string

record state =
  fs :: node
  dbs :: db
  out :: "event list"

record env =
  ctx_index :: bool
  ctx_trace :: bool
  ctx_yes :: bool
  conf_Init :: "error option"
  conf_CachePath :: string
  conf_SidecarPath :: string
  conf_AlbumsPath :: string
  conf_AdminPassword :: string
  prompt_Run :: "string \<Rightarrow> error + string"
  filepath_Glob :: "string \<Rightarrow> node \<Rightarrow> error + string list"
  os_Remove :: "string \<Rightarrow> node \<Rightarrow> error option \<times> node"
  os_RemoveAll :: "string \<Rightarrow> node \<Rightarrow> error option \<times> node"
  tables_Drop :: "db \<Rightarrow> error option \<times> db"
  entity_MigrateDb :: "bool \<Rightarrow> bool \<Rightarrow> db \<Rightarrow> error option \<times> db"
  admin_InitPassword :: "string \<Rightarrow> db \<Rightarrow> error option \<times> db"

text \<open>
  \<open>prompt_Run e label\<close> is what \<open>promptui.Prompt{Label: label, IsConfirm: true}.Run()\<close>
  returns: \<open>Inr\<close> the text typed when the answer is an affirmative one, \<open>Inl\<close> an error for
  every other answer, for an interrupt and for the end of the input. Every label is shown at
  most once in a run, so a function of the label describes every sequence of answers.
\<close>

definition emit :: "event \<Rightarrow> state \<Rightarrow> state" where
  "emit ev s = s\<lparr>out := out s @ [ev]\<rparr>"

subsection \<open>regexp.QuoteMeta\<close>

text \<open>
  \<open>regexp.QuoteMeta\<close> puts a backslash before each of the bytes \<open>\.+*?()|[]{}^$\<close> and copies
  every other byte.
\<close>

definition Separator :: char where
  "Separator = CHR ''/''"

definition backslash :: char where
  "backslash = CHR 0x5C"

definition special :: "char \<Rightarrow> bool" where
  "special b = (b \<in> set (backslash # ''.+*?()|[]{}^$''))"

definition QuoteMeta :: "string \<Rightarrow> string" where
  "QuoteMeta s = concat (map (\<lambda>b. if special b then [backslash, b] else [b]) s)"

subsection \<open>The schema reset\<close>

text \<open>
  \<open>resetIndexDb\<close> has no result, and its three calls stand in statement position: what the
  collaborators report is dropped, only their effect on the database remains.
\<close>

definition resetIndexDb :: "env \<Rightarrow> state \<Rightarrow> state" where
  "resetIndexDb e s =
     (let s1 = emit (Log Info ''dropping existing tables'' []) s;
          s2 = (emit CallDrop s1)\<lparr>dbs := snd (tables_Drop e (dbs s1))\<rparr>;
          s3 = emit (Log Info ''restoring default schema'' []) s2;
          s4 = (emit (CallMigrateDb True False) s3)
                 \<lparr>dbs := snd (entity_MigrateDb e True False (dbs s3))\<rparr>;
          s5 = (if conf_AdminPassword e \<noteq> [] then
                  (let s4a = emit (Log Info ''restoring initial admin password'' []) s4
                   in (emit (CallInitPassword (conf_AdminPassword e)) s4a)
                        \<lparr>dbs := snd (admin_InitPassword e (conf_AdminPassword e) (dbs s4a))\<rparr>)
                else s4)
      in emit (Log Info ''database reset completed in %s'' [ArgElapsed]) s5)"

subsection \<open>The removal loops\<close>

text \<open>
  The four loops \<open>for _, name := range matches\<close> differ in the primitive they call only
  (\<open>os.RemoveAll\<close> for the cache, \<open>os.Remove\<close> for the three others): \<open>removeEach\<close> is that
  loop, with the primitive \<open>rm\<close> and the event \<open>call\<close> of its call as parameters.
\<close>

fun removeEach ::
  "(string \<Rightarrow> node \<Rightarrow> error option \<times> node) \<Rightarrow> (string \<Rightarrow> event) \<Rightarrow> string list \<Rightarrow> state \<Rightarrow> state"
where
  "removeEach rm call [] s = s"
| "removeEach rm call (name # names) s =
     (let s1 = emit (call name) s;
          r = rm name (fs s1);
          s2 = s1\<lparr>fs := snd r\<rparr>;
          s3 = (if fst r \<noteq> None then emit (Print ''E'') s2 else emit (Print ''.'') s2)
      in removeEach rm call names s3)"

definition newline :: string where
  "newline = [CHR 0x0A]"

definition resetCache :: "env \<Rightarrow> state \<Rightarrow> state" where
  "resetCache e s =
     (let pat = QuoteMeta (conf_CachePath e) @ ''/**'';
          s1 = emit (CallGlob pat) s
      in case filepath_Glob e pat (fs s1) of
           Inl err \<Rightarrow> emit (Log Error ''reset: %s (find cache files)'' [ArgErr err]) s1
         | Inr matches \<Rightarrow>
             if length matches > 0 then
               (let s2 = emit (Log Info ''clearing cache'' []) s1;
                    s3 = removeEach (os_RemoveAll e) CallRemoveAll matches s2;
                    s4 = emit (Print newline) s3
                in emit (Log Info ''removed cache files [%s]'' [ArgElapsed]) s4)
             else emit (Log Info ''found no cache files'' []) s1)"

definition resetSidecarJson :: "env \<Rightarrow> state \<Rightarrow> state" where
  "resetSidecarJson e s =
     (let pat = QuoteMeta (conf_SidecarPath e) @ ''/**/*.json'';
          s1 = emit (CallGlob pat) s
      in case filepath_Glob e pat (fs s1) of
           Inl err \<Rightarrow> emit (Log Error ''reset: %s (find *.json sidecar files)'' [ArgErr err]) s1
         | Inr matches \<Rightarrow>
             if length matches > 0 then
               (let s2 = emit (Log Info ''removing %d *.json sidecar files''
                                 [ArgInt (length matches)]) s1;
                    s3 = removeEach (os_Remove e) CallRemove matches s2;
                    s4 = emit (Print newline) s3
                in emit (Log Info ''removed *.json sidecar files [%s]'' [ArgElapsed]) s4)
             else emit (Log Info ''found no *.json sidecar files'' []) s1)"

definition resetSidecarYaml :: "env \<Rightarrow> state \<Rightarrow> state" where
  "resetSidecarYaml e s =
     (let pat = QuoteMeta (conf_SidecarPath e) @ ''/**/*.yml'';
          s1 = emit (CallGlob pat) s
      in case filepath_Glob e pat (fs s1) of
           Inl err \<Rightarrow> emit (Log Error ''reset: %s (find *.yml metadata files)'' [ArgErr err]) s1
         | Inr matches \<Rightarrow>
             if length matches > 0 then
               (let s2 = emit (Log Info ''%d *.yml metadata files will be removed''
                                 [ArgInt (length matches)]) s1;
                    s3 = removeEach (os_Remove e) CallRemove matches s2;
                    s4 = emit (Print newline) s3
                in emit (Log Info ''removed all *.yml metadata files [%s]'' [ArgElapsed]) s4)
             else emit (Log Info ''found no *.yml metadata files'' []) s1)"

text \<open>
  The album files have no function of their own: their enumeration and loop stand in
  \<open>resetAction\<close>, and an error of the enumeration is returned from there.
\<close>

definition resetAlbumYaml :: "env \<Rightarrow> state \<Rightarrow> error option \<times> state" where
  "resetAlbumYaml e s =
     (let pat = QuoteMeta (conf_AlbumsPath e) @ ''/**/*.yml'';
          s1 = emit (CallGlob pat) s
      in case filepath_Glob e pat (fs s1) of
           Inl err \<Rightarrow> (Some err, s1)
         | Inr matches \<Rightarrow>
             if length matches > 0 then
               (let s2 = emit (Log Info ''%d *.yml album files will be removed''
                                 [ArgInt (length matches)]) s1;
                    s3 = removeEach (os_Remove e) CallRemove matches s2;
                    s4 = emit (Print newline) s3
                in (None, emit (Log Info ''removed all *.yml album files [%s]'' [ArgElapsed]) s4))
             else (None, emit (Log Info ''found no *.yml album files'' []) s1))"

subsection \<open>The stages of resetAction\<close>

text \<open>
  \<open>resetAction\<close> is one function in the source. Its blocks are named here, one per gate:
  the block of the index database and the four blocks under the comments "Clear cache.",
  "*.json sidecar files.", "*.yml metadata files." and "*.yml album files.".
\<close>

definition index_label :: string where
  "index_label = ''Delete and recreate index database?''"

definition cache_label :: string where
  "cache_label = ''Clear cache incl thumbnails?''"

definition json_label :: string where
  "json_label = ''Delete all *.json sidecar files?''"

definition yaml_label :: string where
  "yaml_label = ''Delete all *.yml metadata files?''"

definition album_label :: string where
  "album_label = ''Delete all *.yml album files?''"

text \<open>
  The confirmation of a stage of files: the prompt is shown, the stage runs when \<open>Run\<close>
  returned no error, and a line is logged otherwise.
\<close>

definition stageCache :: "env \<Rightarrow> state \<Rightarrow> state" where
  "stageCache e s =
     (let s1 = emit (Prompt cache_label) s
      in case prompt_Run e cache_label of
           Inr _ \<Rightarrow> resetCache e s1
         | Inl _ \<Rightarrow> emit (Log Info ''keeping cache files'' []) s1)"

definition stageSidecarJson :: "env \<Rightarrow> state \<Rightarrow> state" where
  "stageSidecarJson e s =
     (let s1 = emit (Prompt json_label) s
      in case prompt_Run e json_label of
           Inr _ \<Rightarrow> resetSidecarJson e s1
         | Inl _ \<Rightarrow> emit (Log Info ''keeping *.json sidecar files'' []) s1)"

definition stageSidecarYaml :: "env \<Rightarrow> state \<Rightarrow> state" where
  "stageSidecarYaml e s =
     (let s1 = emit (Prompt yaml_label) s
      in case prompt_Run e yaml_label of
           Inr _ \<Rightarrow> resetSidecarYaml e s1
         | Inl _ \<Rightarrow> emit (Log Info ''keeping *.yml metadata files'' []) s1)"

definition stageAlbumYaml :: "env \<Rightarrow> state \<Rightarrow> error option \<times> state" where
  "stageAlbumYaml e s =
     (let s1 = emit (Prompt album_label) s
      in case prompt_Run e album_label of
           Inr _ \<Rightarrow> resetAlbumYaml e s1
         | Inl _ \<Rightarrow> (None, emit (Log Info ''keeping *.yml album files'' []) s1))"

text \<open>
  The index stage: \<open>resetIndex\<close> starts as the flag \<open>yes\<close>; without the flag the prompt decides.
\<close>

definition stageIndex :: "env \<Rightarrow> state \<Rightarrow> state" where
  "stageIndex e s =
     (let resetIndex = ctx_yes e;
          r = (if \<not> resetIndex then
                 (let s1 = emit (Prompt index_label) s
                  in case prompt_Run e index_label of
                       Inr _ \<Rightarrow> (True, s1)
                     | Inl _ \<Rightarrow> (resetIndex, emit (Log Info ''keeping index database'' []) s1))
               else (resetIndex, s))
      in if fst r then resetIndexDb e (snd r) else snd r)"

definition announce :: "env \<Rightarrow> state \<Rightarrow> state" where
  "announce e s =
     (let s1 = (if \<not> ctx_yes e then
                  (let s0 = emit (Log Warn
                     ''This will delete and recreate your index database after confirmation'' []) s
                   in if \<not> ctx_index e then
                        emit (Log Warn
                     ''You will be asked next if you also want to remove cache and sidecar files'' [])
                          s0
                      else s0)
                else s)
      in if ctx_trace e then
           emit (Log Info ''reset: enabled trace mode'' []) (emit SetLevelTrace s1)
         else s1)"

text \<open>
  \<open>resetAction\<close>: the bootstrap \<open>conf.Init()\<close>, whose error is returned at once; then, with
  \<open>conf.Shutdown()\<close> deferred to every later return, the stages in their order.
\<close>

definition resetAction :: "env \<Rightarrow> state \<Rightarrow> error option \<times> state" where
  "resetAction e s =
     (case conf_Init e of
        Some err \<Rightarrow> (Some err, emit CallInit s)
      | None \<Rightarrow>
          (let s1 = emit CallSetDbProvider (emit CallInit s);
               s2 = announce e s1;
               s3 = stageIndex e s2
           in if ctx_index e \<or> ctx_yes e then (None, emit CallShutdown s3)
              else
                (let s4 = stageCache e s3;
                     s5 = stageSidecarJson e s4;
                     s6 = stageSidecarYaml e s5;
                     r = stageAlbumYaml e s6
                 in (fst r, emit CallShutdown (snd r)))))"

section \<open>The Go standard library on a Unix file system\<close>

text \<open>
  The command builds its patterns for \<open>filepath.Glob\<close> and removes what it returns with
  \<open>os.Remove\<close> and \<open>os.RemoveAll\<close>. This section writes these functions out, for Unix
  (the separator is \<open>/\<close> and the backslash escapes), from the sources of the packages
  \<open>path/filepath\<close> and \<open>os\<close> of Go 1.18.4 and later. Strings are sequences of bytes. The
  one place where Go reads a rune rather than a byte is the character that \<open>?\<close> or a class
  \<open>[...]\<close> consumes: it is one byte here, which is exact for ASCII names. No pattern of the
  command holds an unescaped \<open>?\<close> or \<open>[\<close>: the configured path is quoted, and the
  suffixes hold none.
\<close>

subsection \<open>filepath.Match\<close>

text \<open>
  \<open>scan\<close> is the loop of \<open>scanChunk\<close>: it cuts the pattern before the first \<open>*\<close> that is
  neither escaped nor inside brackets. \<open>getEsc\<close>, \<open>ranges\<close> (the loop over the ranges of a
  class) and \<open>matchChunk\<close> follow the source; the flag \<open>failed\<close> is the variable of that
  name, with which the chunk is still checked for syntax after the match has failed.
\<close>

fun scan :: "bool \<Rightarrow> string \<Rightarrow> string \<times> string" where
  "scan inrange [] = ([], [])"
| "scan inrange (c # cs) =
     (if c = backslash then
        (case cs of
           [] \<Rightarrow> ([c], [])
         | d # ds \<Rightarrow> (let r = scan inrange ds in (c # d # fst r, snd r)))
      else if c = CHR ''['' then (let r = scan True cs in (c # fst r, snd r))
      else if c = CHR '']'' then (let r = scan False cs in (c # fst r, snd r))
      else if c = CHR ''*'' \<and> \<not> inrange then ([], c # cs)
      else (let r = scan inrange cs in (c # fst r, snd r)))"

definition scanChunk :: "string \<Rightarrow> bool \<times> string \<times> string" where
  "scanChunk pattern =
     (let star = (pattern \<noteq> [] \<and> hd pattern = CHR ''*'');
          r = scan False (dropWhile (\<lambda>c. c = CHR ''*'') pattern)
      in (star, fst r, snd r))"

definition getEsc :: "string \<Rightarrow> error + (char \<times> string)" where
  "getEsc chunk =
     (if chunk = [] \<or> hd chunk = CHR ''-'' \<or> hd chunk = CHR '']'' then Inl ErrBadPattern
      else
        (let chunk1 = (if hd chunk = backslash then tl chunk else chunk)
         in if chunk1 = [] then Inl ErrBadPattern
            else if tl chunk1 = [] then Inl ErrBadPattern
            else Inr (hd chunk1, tl chunk1)))"

function ranges :: "char \<Rightarrow> string \<Rightarrow> bool \<Rightarrow> nat \<Rightarrow> error + (bool \<times> string)" where
  "ranges r chunk match nrange =
     (if chunk \<noteq> [] \<and> hd chunk = CHR '']'' \<and> nrange > 0 then Inr (match, tl chunk)
      else
        (case getEsc chunk of
           Inl err \<Rightarrow> Inl err
         | Inr (lo, chunk1) \<Rightarrow>
             (case (if hd chunk1 = CHR ''-'' then getEsc (tl chunk1) else Inr (lo, chunk1)) of
                Inl err \<Rightarrow> Inl err
              | Inr (hi, chunk2) \<Rightarrow>
                  ranges r chunk2 (if lo \<le> r \<and> r \<le> hi then True else match) (nrange + 1))))"
  by pat_completeness auto
termination
  apply (relation "measure (\<lambda>(r, chunk, match, nrange). length chunk)")
   apply simp
  apply (auto simp: getEsc_def Let_def split: if_splits)
  done

declare ranges.simps [simp del]

function matchChunk :: "bool \<Rightarrow> string \<Rightarrow> string \<Rightarrow> error + string option" where
  "matchChunk failed [] s = Inr (if failed then None else Some s)"
| "matchChunk failed (c # chunk) s =
     (let failed = (failed \<or> s = [])
      in if c = CHR ''['' then
           (let r = (if failed then CHR 0x00 else hd s);
                s1 = (if failed then s else tl s);
                negated = (chunk \<noteq> [] \<and> hd chunk = CHR ''^'');
                chunk1 = (if negated then tl chunk else chunk)
            in case ranges r chunk1 False 0 of
                 Inl err \<Rightarrow> Inl err
               | Inr (match, chunk2) \<Rightarrow> matchChunk (failed \<or> match = negated) chunk2 s1)
         else if c = CHR ''?'' then
           (if failed then matchChunk failed chunk s
            else matchChunk (hd s = Separator) chunk (tl s))
         else if c = backslash then
           (case chunk of
              [] \<Rightarrow> Inl ErrBadPattern
            | d # chunk' \<Rightarrow>
                if failed then matchChunk failed chunk' s
                else matchChunk (d \<noteq> hd s) chunk' (tl s))
         else
           (if failed then matchChunk failed chunk s
            else matchChunk (c \<noteq> hd s) chunk (tl s)))"
  by pat_completeness auto
termination
proof -
  have shorter: "ranges r ch m n = Inr (m', ch') \<Longrightarrow> length ch' \<le> length ch"
    for r ch m n m' ch'
  proof (induction r ch m n rule: ranges.induct)
    case (1 r chunk match nrange)
    show ?case
    proof (cases "chunk \<noteq> [] \<and> hd chunk = CHR '']'' \<and> nrange > 0")
      case True
      with "1.prems" show ?thesis by (auto simp: ranges.simps [of r chunk])
    next
      case False
      with "1.prems" obtain lo chunk1 hi chunk2 where
        a: "getEsc chunk = Inr (lo, chunk1)"
        and b: "(if hd chunk1 = CHR ''-'' then getEsc (tl chunk1) else Inr (lo, chunk1))
                  = Inr (hi, chunk2)"
        and c: "ranges r chunk2 (if lo \<le> r \<and> r \<le> hi then True else match) (nrange + 1)
                  = Inr (m', ch')"
        by (subst (asm) ranges.simps) (auto split: sum.splits prod.splits)
      from "1.IH" [OF False a refl b refl c] have "length ch' \<le> length chunk2" .
      moreover from a b have "length chunk2 \<le> length chunk"
        by (auto simp: getEsc_def Let_def split: if_splits)
      ultimately show ?thesis by simp
    qed
  qed
  show ?thesis
    apply (relation "measure (\<lambda>(failed, chunk, s). length chunk)")
         apply simp_all
    apply (auto dest!: shorter split: if_splits)
    done
qed

declare matchChunk.simps [simp del]

text \<open>
  The loop of \<open>Match\<close> reads the pattern chunk by chunk with \<open>scanChunk\<close>; the chunks do not
  depend on the name, so \<open>chunks\<close> computes them first and \<open>matchChunks\<close> is the loop.
  \<open>skipMatch\<close> is the inner loop that lets a leading star skip bytes of the name, and
  \<open>checkChunks\<close> the syntax check of the rest of the pattern before \<open>false\<close> is returned.
\<close>

function chunks :: "string \<Rightarrow> (bool \<times> string) list" where
  "chunks pattern =
     (if pattern = [] then []
      else (case scanChunk pattern of (star, chunk, rest) \<Rightarrow> (star, chunk) # chunks rest))"
  by pat_completeness auto
termination
proof -
  have total: "length (fst (scan b p)) + length (snd (scan b p)) = length p" for b p
    by (induction b p rule: scan.induct) (auto simp: Let_def split: list.splits)
  have progress: "p \<noteq> [] \<Longrightarrow> hd p \<noteq> CHR ''*'' \<Longrightarrow> fst (scan False p) \<noteq> []" for p
    by (cases p) (auto simp: Let_def split: list.splits)
  have stars: "length (dropWhile (\<lambda>c. c = CHR ''*'') p) \<le> length p" for p :: string
    by (simp add: length_dropWhile_le)
  have less: "p \<noteq> [] \<Longrightarrow> length (snd (scan False (dropWhile (\<lambda>c. c = CHR ''*'') p))) < length p"
    for p
  proof (cases "hd p = CHR ''*''")
    case True
    assume "p \<noteq> []"
    with True obtain q where p: "p = CHR ''*'' # q" by (cases p) auto
    have "length (snd (scan False (dropWhile (\<lambda>c. c = CHR ''*'') q))) \<le> length q"
      using total [of False "dropWhile (\<lambda>c. c = CHR ''*'') q"] stars [of q] by linarith
    with p show ?thesis by simp
  next
    case False
    assume ne: "p \<noteq> []"
    with False have d: "dropWhile (\<lambda>c. c = CHR ''*'') p = p" by (cases p) auto
    from progress [OF ne False] total [of False p] show ?thesis
      unfolding d by (cases "fst (scan False p)") auto
  qed
  show ?thesis
    apply (relation "measure length")
     apply simp
    apply (auto simp: scanChunk_def Let_def)
    apply (metis less snd_conv)
    done
qed

declare chunks.simps [simp del]

fun checkChunks :: "(bool \<times> string) list \<Rightarrow> error option" where
  "checkChunks [] = None"
| "checkChunks ((star, chunk) # rest) =
     (case matchChunk False chunk [] of
        Inl err \<Rightarrow> Some err
      | Inr _ \<Rightarrow> checkChunks rest)"

fun skipMatch :: "string \<Rightarrow> bool \<Rightarrow> string \<Rightarrow> error + string option" where
  "skipMatch chunk final [] = Inr None"
| "skipMatch chunk final (c # name) =
     (if c = Separator then Inr None
      else
        (case matchChunk False chunk name of
           Inl err \<Rightarrow> Inl err
         | Inr None \<Rightarrow> skipMatch chunk final name
         | Inr (Some t) \<Rightarrow>
             if final \<and> length t > 0 then skipMatch chunk final name else Inr (Some t)))"

fun matchChunks :: "(bool \<times> string) list \<Rightarrow> string \<Rightarrow> error + bool" where
  "matchChunks [] name = Inr (length name = 0)"
| "matchChunks ((star, chunk) # rest) name =
     (if star \<and> chunk = [] then Inr (Separator \<notin> set name)
      else
        (case matchChunk False chunk name of
           Inl err \<Rightarrow> Inl err
         | Inr r \<Rightarrow>
             if r \<noteq> None \<and> (length (the r) = 0 \<or> rest \<noteq> []) then matchChunks rest (the r)
             else
               (case (if star then skipMatch chunk (rest = []) name else Inr None) of
                  Inl err \<Rightarrow> Inl err
                | Inr (Some t) \<Rightarrow> matchChunks rest t
                | Inr None \<Rightarrow>
                    (case checkChunks rest of
                       Some err \<Rightarrow> Inl err
                     | None \<Rightarrow> Inr False))))"

definition Match :: "string \<Rightarrow> string \<Rightarrow> error + bool" where
  "Match pattern name = matchChunks (chunks pattern) name"

subsection \<open>filepath.Clean, Join and Split\<close>

text \<open>
  \<open>Clean\<close> works on the elements of the path: empty elements and \<open>.\<close> go, \<open>..\<close> takes the
  element before it with it (at the root it goes alone; in a relative path a leading \<open>..\<close>
  stays). \<open>Split\<close> cuts after the last separator.
\<close>

fun splitSep :: "string \<Rightarrow> string list" where
  "splitSep [] = [[]]"
| "splitSep (c # cs) =
     (if c = Separator then [] # splitSep cs
      else (case splitSep cs of [] \<Rightarrow> [[c]] | x # xs \<Rightarrow> (c # x) # xs))"

fun joinSep :: "string list \<Rightarrow> string" where
  "joinSep [] = []"
| "joinSep [x] = x"
| "joinSep (x # y # ys) = x @ Separator # joinSep (y # ys)"

fun cleanElems :: "bool \<Rightarrow> string list \<Rightarrow> string list \<Rightarrow> string list" where
  "cleanElems rooted acc [] = rev acc"
| "cleanElems rooted acc (c # cs) =
     (if c = [] \<or> c = ''.'' then cleanElems rooted acc cs
      else if c = ''..'' then
        (case acc of
           a # acc' \<Rightarrow>
             if a = ''..'' then cleanElems rooted (c # acc) cs else cleanElems rooted acc' cs
         | [] \<Rightarrow> if rooted then cleanElems rooted acc cs else cleanElems rooted [c] cs)
      else cleanElems rooted (c # acc) cs)"

definition Clean :: "string \<Rightarrow> string" where
  "Clean path =
     (if path = [] then ''.''
      else
        (let rooted = (hd path = Separator);
             body = joinSep (cleanElems rooted [] (splitSep path))
         in if rooted then Separator # body
            else if body = [] then ''.'' else body))"

definition Join :: "string \<Rightarrow> string \<Rightarrow> string" where
  "Join dir name =
     (if dir \<noteq> [] then Clean (dir @ Separator # name)
      else if name \<noteq> [] then Clean name
      else [])"

definition Split :: "string \<Rightarrow> string \<times> string" where
  "Split path =
     (let file = rev (takeWhile (\<lambda>c. c \<noteq> Separator) (rev path))
      in (take (length path - length file) path, file))"

subsection \<open>Files: os.Stat, os.Remove, os.RemoveAll\<close>

text \<open>
  A path is resolved element by element from the root (the working directory is the root):
  \<open>walk\<close> holds the elements of the directory reached so far. \<open>Remove\<close> deletes a file or
  an empty directory; \<open>RemoveAll\<close> deletes a path with everything below it and returns no
  error for a path that does not exist. There are no permissions: a removal fails for the
  shape of the tree only. Both functions refuse a path whose last element is \<open>.\<close> or
  \<open>..\<close>; \<open>os.RemoveAll\<close> refuses the paths that end in \<open>/.\<close> and treats the others of
  these in ways that are not followed here. No enumeration returns such a path, since
  \<open>Join\<close> cleans what \<open>glob\<close> returns.
\<close>

fun lookup :: "node \<Rightarrow> string list \<Rightarrow> node option" where
  "lookup n [] = Some n"
| "lookup File (c # cs) = None"
| "lookup (Dir es) (c # cs) = (case map_of es c of None \<Rightarrow> None | Some m \<Rightarrow> lookup m cs)"

fun walk :: "node \<Rightarrow> string list \<Rightarrow> string list \<Rightarrow> error + string list" where
  "walk root cur [] = (case lookup root cur of None \<Rightarrow> Inl ENOENT | Some _ \<Rightarrow> Inr cur)"
| "walk root cur (c # cs) =
     (case lookup root cur of
        None \<Rightarrow> Inl ENOENT
      | Some File \<Rightarrow> Inl ENOTDIR
      | Some (Dir es) \<Rightarrow>
          if c = [] \<or> c = ''.'' then walk root cur cs
          else if c = ''..'' then walk root (butlast cur) cs
          else walk root (cur @ [c]) cs)"

definition resolve :: "node \<Rightarrow> string \<Rightarrow> error + string list" where
  "resolve root path = (if path = [] then Inl ENOENT else walk root [] (splitSep path))"

definition Stat :: "node \<Rightarrow> string \<Rightarrow> error + node" where
  "Stat root path =
     (case resolve root path of
        Inl err \<Rightarrow> Inl err
      | Inr cur \<Rightarrow> (case lookup root cur of None \<Rightarrow> Inl ENOENT | Some n \<Rightarrow> Inr n))"

fun delete :: "string list \<Rightarrow> node \<Rightarrow> node" where
  "delete [] n = n"
| "delete (c # cs) File = File"
| "delete [c] (Dir es) = Dir (filter (\<lambda>e. fst e \<noteq> c) es)"
| "delete (c # cs) (Dir es) = Dir (map (\<lambda>e. if fst e = c then (fst e, delete cs (snd e)) else e) es)"

definition lastElem :: "string \<Rightarrow> string" where
  "lastElem path = last (filter (\<lambda>c. c \<noteq> []) ([] # splitSep path))"

definition Remove :: "string \<Rightarrow> node \<Rightarrow> error option \<times> node" where
  "Remove name root =
     (case resolve root name of
        Inl err \<Rightarrow> (Some err, root)
      | Inr cur \<Rightarrow>
          if lastElem name = ''.'' \<or> lastElem name = ''..'' then (Some EINVAL, root)
          else if cur = [] then (Some EBUSY, root)
          else
            (case lookup root cur of
               Some (Dir (x # xs)) \<Rightarrow> (Some ENOTEMPTY, root)
             | _ \<Rightarrow> (None, delete cur root)))"

definition RemoveAll :: "string \<Rightarrow> node \<Rightarrow> error option \<times> node" where
  "RemoveAll path root =
     (if path = [] then (None, root)
      else if lastElem path = ''.'' \<or> lastElem path = ''..'' then (Some EINVAL, root)
      else
        (case resolve root path of
           Inl err \<Rightarrow> (if err = ENOENT then None else Some err, root)
         | Inr cur \<Rightarrow> if cur = [] then (Some EBUSY, Dir []) else (None, delete cur root)))"

subsection \<open>filepath.Glob\<close>

text \<open>
  \<open>glob\<close> lists one directory (the names sorted) and keeps the names that match;
  \<open>globWithLimit\<close> splits the pattern into directory and file, expands the directory first
  when it holds a metacharacter and then lists every directory found. A star never matches
  a separator, and the pattern is split at the separators, so every element of the pattern
  is matched against the names of one level.
\<close>

definition hasMeta :: "string \<Rightarrow> bool" where
  "hasMeta path = (\<exists>c \<in> set path. c \<in> set (backslash # ''*?[''))"

definition cleanGlobPath :: "string \<Rightarrow> string" where
  "cleanGlobPath path =
     (if path = [] then ''.''
      else if path = [Separator] then path
      else take (length path - 1) path)"

fun globNames :: "string \<Rightarrow> string \<Rightarrow> string list \<Rightarrow> string list \<Rightarrow> error + string list" where
  "globNames dir pattern [] m = Inr m"
| "globNames dir pattern (n # names) m =
     (case Match pattern n of
        Inl err \<Rightarrow> Inl err
      | Inr matched \<Rightarrow> globNames dir pattern names (if matched then m @ [Join dir n] else m))"

definition glob :: "node \<Rightarrow> string \<Rightarrow> string \<Rightarrow> string list \<Rightarrow> error + string list" where
  "glob root dir pattern matches =
     (case Stat root dir of
        Inr (Dir es) \<Rightarrow> globNames dir pattern (sort (map fst es)) matches
      | _ \<Rightarrow> Inr matches)"

fun globEach :: "node \<Rightarrow> string \<Rightarrow> string list \<Rightarrow> string list \<Rightarrow> error + string list" where
  "globEach root file [] matches = Inr matches"
| "globEach root file (d # ds) matches =
     (case glob root d file matches of
        Inl err \<Rightarrow> Inl err
      | Inr m \<Rightarrow> globEach root file ds m)"

definition pathSeparatorsLimit :: nat where
  "pathSeparatorsLimit = 10000"

function globWithLimit :: "node \<Rightarrow> string \<Rightarrow> nat \<Rightarrow> error + string list" where
  "globWithLimit root pattern depth =
     (if depth = pathSeparatorsLimit then Inl ErrBadPattern
      else
        (case Match pattern [] of
           Inl err \<Rightarrow> Inl err
         | Inr _ \<Rightarrow>
             if \<not> hasMeta pattern then
               (case Stat root pattern of Inl _ \<Rightarrow> Inr [] | Inr _ \<Rightarrow> Inr [pattern])
             else
               (let dir = cleanGlobPath (fst (Split pattern));
                    file = snd (Split pattern)
                in if \<not> hasMeta dir then glob root dir file []
                   else if dir = pattern then Inl ErrBadPattern
                   else
                     (case globWithLimit root dir (depth + 1) of
                        Inl err \<Rightarrow> Inl err
                      | Inr m \<Rightarrow> globEach root file m []))))"
  by pat_completeness auto
termination
proof -
  have shorter: "hasMeta (cleanGlobPath (fst (Split p))) \<Longrightarrow>
    length (cleanGlobPath (fst (Split p))) < length p" for p
  proof -
    assume m: "hasMeta (cleanGlobPath (fst (Split p)))"
    have le: "length (fst (Split p)) \<le> length p"
      by (simp add: Split_def Let_def)
    from m have "fst (Split p) \<noteq> []" "fst (Split p) \<noteq> [Separator]"
      by (auto simp: cleanGlobPath_def hasMeta_def Separator_def backslash_def)
    then have "length (cleanGlobPath (fst (Split p))) < length (fst (Split p))"
      by (simp add: cleanGlobPath_def)
    with le show ?thesis by simp
  qed
  show ?thesis
    apply (relation "measure (\<lambda>(root, pattern, depth). length pattern)")
     apply simp
    apply (simp add: shorter)
    done
qed

declare globWithLimit.simps [simp del]

definition Glob :: "string \<Rightarrow> node \<Rightarrow> error + string list" where
  "Glob pattern root = globWithLimit root pattern 0"

section \<open>Well-formed file systems, the collaborators and what a run shows\<close>

subsection \<open>Well-formed file systems and absolute paths\<close>



definition absPath :: "string list \<Rightarrow> string" where
  "absPath cs = concat (map (\<lambda>c. Separator # c) cs)"


subsection \<open>The collaborators of package entity\<close>

text \<open>
  Modelled from the spec: \<open>dropAll(handle)\<close> of the entity registry, which is not among the
  sources at hand ("drop every table known to the current schema definition"). The
  credential of the administrator is stored in one of these tables and goes with them.
\<close>

definition dropAll :: "string list \<Rightarrow> db \<Rightarrow> error option \<times> db" where
  "dropAll entities d =
     (None, d\<lparr>db_tables := filter (\<lambda>t. t \<notin> set entities) (db_tables d),
              db_admin_credential := None\<rparr>)"

text \<open>
  Modelled from the spec: \<open>migrate(force, quiet)\<close> of the entity registry, which is not among
  the sources at hand ("re-apply the default/latest schema"): the tables of the schema
  exist afterwards.
\<close>

definition migrate :: "string list \<Rightarrow> bool \<Rightarrow> bool \<Rightarrow> db \<Rightarrow> error option \<times> db" where
  "migrate entities force quiet d =
     (None, d\<lparr>db_tables := db_tables d @ filter (\<lambda>t. t \<notin> set (db_tables d)) entities\<rparr>)"

text \<open>
  Modelled from the spec: \<open>initAdminPassword(value)\<close> of the entity registry, which is not
  among the sources at hand ("reinitialize the administrator credential to that value").
\<close>

definition initAdminPassword :: "string \<Rightarrow> db \<Rightarrow> error option \<times> db" where
  "initAdminPassword v d = (None, d\<lparr>db_admin_credential := Some v\<rparr>)"

subsection \<open>What a run shows\<close>

text \<open>
  Projections of the events of a run: the labels of the prompts shown, the strings printed,
  the calls to the file system and the calls to the database. \<open>outcomes rm names root\<close> is
  what the removal primitive \<open>rm\<close> returns for each name in turn, each call on the file
  system the call before left.
\<close>

fun prompts :: "event list \<Rightarrow> string list" where
  "prompts [] = []"
| "prompts (Prompt l # evs) = l # prompts evs"
| "prompts (ev # evs) = prompts evs"

fun markers :: "event list \<Rightarrow> string list" where
  "markers [] = []"
| "markers (Print m # evs) = m # markers evs"
| "markers (ev # evs) = markers evs"

fun fileCalls :: "event list \<Rightarrow> event list" where
  "fileCalls [] = []"
| "fileCalls (CallGlob p # evs) = CallGlob p # fileCalls evs"
| "fileCalls (CallRemove p # evs) = CallRemove p # fileCalls evs"
| "fileCalls (CallRemoveAll p # evs) = CallRemoveAll p # fileCalls evs"
| "fileCalls (ev # evs) = fileCalls evs"

fun dbCalls :: "event list \<Rightarrow> event list" where
  "dbCalls [] = []"
| "dbCalls (CallDrop # evs) = CallDrop # dbCalls evs"
| "dbCalls (CallMigrateDb f q # evs) = CallMigrateDb f q # dbCalls evs"
| "dbCalls (CallInitPassword v # evs) = CallInitPassword v # dbCalls evs"
| "dbCalls (ev # evs) = dbCalls evs"

fun outcomes ::
  "(string \<Rightarrow> node \<Rightarrow> error option \<times> node) \<Rightarrow> string list \<Rightarrow> node \<Rightarrow> error option list"
where
  "outcomes rm [] root = []"
| "outcomes rm (name # names) root = fst (rm name root) # outcomes rm names (snd (rm name root))"

definition mark :: "error option \<Rightarrow> string" where
  "mark r = (if r \<noteq> None then ''E'' else ''.'')"

subsection \<open>A concrete installation\<close>

text \<open>
  An installation to run the command on: the sidecar directory of the scenario of the spec
  (\<open>x/y/a.json\<close>, \<open>b.json\<close>, \<open>c.txt\<close>), a cache, an album directory with a file and a
  directory whose names end in \<open>.yml\<close>, and three directories \<open>a[b]\<close>, \<open>a\<close> and \<open>b\<close>.
\<close>

definition disk :: node where
  "disk =
     Dir [(''data'', Dir
        [(''sidecar'', Dir
            [(''x'', Dir [(''y'', Dir [(''a.json'', File)])]),
             (''b.json'', File),
             (''c.txt'', File)]),
         (''cache'', Dir
            [(''thumbs'', Dir [(''1.jpg'', File), (''2.jpg'', File)]),
             (''tmp'', File)]),
         (''albums'', Dir
            [(''2020'', Dir [(''trip.yml'', File), (''full.yml'', Dir [(''k'', File)])])]),
         (''a[b]'', Dir [(''k'', Dir [(''m.json'', File)])]),
         (''a'', Dir [(''k'', Dir [(''n.json'', File)])]),
         (''b'', Dir [(''k'', Dir [(''o.json'', File)])])])]"

definition start :: state where
  "start = \<lparr>fs = disk,
            dbs = \<lparr>db_tables = [''photos'', ''passwords''], db_admin_credential = Some ''old''\<rparr>,
            out = []\<rparr>"

definition install :: env where
  "install =
     \<lparr>ctx_index = False, ctx_trace = False, ctx_yes = False,
      conf_Init = None,
      conf_CachePath = ''/data/cache'',
      conf_SidecarPath = ''/data/sidecar'',
      conf_AlbumsPath = ''/data/albums'',
      conf_AdminPassword = ''secret123'',
      prompt_Run = (\<lambda>label. Inr ''y''),
      filepath_Glob = Glob,
      os_Remove = Remove,
      os_RemoveAll = RemoveAll,
      tables_Drop = dropAll [''photos'', ''passwords''],
      entity_MigrateDb = migrate [''photos'', ''passwords''],
      admin_InitPassword = initAdminPassword\<rparr>"

text \<open>
  Variations of the installation: an operator who affirms the \<open>*.json\<close> stage only and
  interrupts every other prompt, an enumeration that works for the cache only, and
  collaborators that report a failure of the schema reset.
\<close>

definition declining :: env where
  "declining =
     install\<lparr>prompt_Run :=
       (\<lambda>label. if label = json_label then Inr ''y'' else Inl ErrInterrupt)\<rparr>"

definition unreadable :: env where
  "unreadable =
     install\<lparr>filepath_Glob :=
       (\<lambda>pattern root.
          if pattern = ''/data/cache/**'' then Glob pattern root else Inl ErrBadPattern)\<rparr>"


subsection \<open>Chunks without wildcards\<close>



section \<open>Properties of the command\<close>

subsection \<open>Events and projections\<close>

lemma out_emit [simp]: "out (emit ev s) = out s @ [ev]"
  and fs_emit [simp]: "fs (emit ev s) = fs s"
  and dbs_emit [simp]: "dbs (emit ev s) = dbs s"
  by (simp_all add: emit_def)

lemma prompts_append [simp]: "prompts (xs @ ys) = prompts xs @ prompts ys"
  by (induction xs rule: prompts.induct) simp_all

lemma markers_append [simp]: "markers (xs @ ys) = markers xs @ markers ys"
  by (induction xs rule: markers.induct) simp_all

lemma fileCalls_append [simp]: "fileCalls (xs @ ys) = fileCalls xs @ fileCalls ys"
  by (induction xs rule: fileCalls.induct) simp_all

lemma dbCalls_append [simp]: "dbCalls (xs @ ys) = dbCalls xs @ dbCalls ys"
  by (induction xs rule: dbCalls.induct) simp_all

subsection \<open>The prompts of a run\<close>

lemma dbs_removeEach [simp]: "dbs (removeEach rm call names s) = dbs s"
  by (induction names arbitrary: s) (simp_all add: Let_def)

lemma prompts_removeEach [simp]:
  "prompts (out (removeEach rm CallRemove names s)) = prompts (out s)"
  "prompts (out (removeEach rm CallRemoveAll names s)) = prompts (out s)"
  by (induction names arbitrary: s; simp add: Let_def)+

lemma prompts_resetIndexDb [simp]: "prompts (out (resetIndexDb e s)) = prompts (out s)"
  by (simp add: resetIndexDb_def Let_def)

lemma prompts_resetCache [simp]: "prompts (out (resetCache e s)) = prompts (out s)"
  by (simp add: resetCache_def Let_def split: sum.splits)

lemma prompts_resetSidecarJson [simp]: "prompts (out (resetSidecarJson e s)) = prompts (out s)"
  by (simp add: resetSidecarJson_def Let_def split: sum.splits)

lemma prompts_resetSidecarYaml [simp]: "prompts (out (resetSidecarYaml e s)) = prompts (out s)"
  by (simp add: resetSidecarYaml_def Let_def split: sum.splits)

lemma prompts_resetAlbumYaml [simp]:
  "prompts (out (snd (resetAlbumYaml e s))) = prompts (out s)"
  by (simp add: resetAlbumYaml_def Let_def split: sum.splits)

lemma prompts_stageCache: "prompts (out (stageCache e s)) = prompts (out s) @ [cache_label]"
  by (simp add: stageCache_def Let_def split: sum.splits)

lemma prompts_stageSidecarJson:
  "prompts (out (stageSidecarJson e s)) = prompts (out s) @ [json_label]"
  by (simp add: stageSidecarJson_def Let_def split: sum.splits)

lemma prompts_stageSidecarYaml:
  "prompts (out (stageSidecarYaml e s)) = prompts (out s) @ [yaml_label]"
  by (simp add: stageSidecarYaml_def Let_def split: sum.splits)

lemma prompts_stageAlbumYaml:
  "prompts (out (snd (stageAlbumYaml e s))) = prompts (out s) @ [album_label]"
  by (simp add: stageAlbumYaml_def Let_def split: sum.splits)

lemma prompts_stageIndex:
  "prompts (out (stageIndex e s)) = prompts (out s) @ (if ctx_yes e then [] else [index_label])"
  by (simp add: stageIndex_def Let_def split: sum.splits)

lemma prompts_announce [simp]: "prompts (out (announce e s)) = prompts (out s)"
  by (simp add: announce_def Let_def)

text \<open>
  Without the flags \<open>index\<close> and \<open>yes\<close> every run that passes the bootstrap shows the five
  prompts, in their order, whatever the answers are and whatever the stages do.
\<close>

lemma all_stages_prompted:
  assumes "conf_Init e = None" "\<not> ctx_index e" "\<not> ctx_yes e"
  shows "prompts (out (snd (resetAction e s))) =
           prompts (out s) @ [index_label, cache_label, json_label, yaml_label, album_label]"
  using assms
  by (simp add: resetAction_def Let_def prompts_stageAlbumYaml prompts_stageSidecarYaml
      prompts_stageSidecarJson prompts_stageCache prompts_stageIndex)

subsection \<open>The index stage and the flags\<close>

lemma fileCalls_resetIndexDb [simp]: "fileCalls (out (resetIndexDb e s)) = fileCalls (out s)"
  by (simp add: resetIndexDb_def Let_def)

lemma fs_resetIndexDb [simp]: "fs (resetIndexDb e s) = fs s"
  by (simp add: resetIndexDb_def Let_def)

lemma dbCalls_resetIndexDb:
  "dbCalls (out (resetIndexDb e s)) =
     dbCalls (out s) @ CallDrop # CallMigrateDb True False #
       (if conf_AdminPassword e \<noteq> [] then [CallInitPassword (conf_AdminPassword e)] else [])"
  by (simp add: resetIndexDb_def Let_def)

lemma announce_keeps [simp]:
  "fs (announce e s) = fs s" "dbs (announce e s) = dbs s"
  "fileCalls (out (announce e s)) = fileCalls (out s)"
  "dbCalls (out (announce e s)) = dbCalls (out s)"
  by (simp_all add: announce_def Let_def)

text \<open>
  C1. With the flag \<open>yes\<close>, a run that has passed the bootstrap \<open>conf.Init()\<close> shows no
  prompt at all, calls the schema reset (drop, migrate and, with a configured password,
  the initialisation of the password), makes no call to the file system, leaves every file
  where it is and returns no error; the flag \<open>index\<close> plays no part.
\<close>

theorem yes_runs_index_stage_only:
  assumes "ctx_yes e" and "conf_Init e = None"
  shows "fst (resetAction e s) = None
    \<and> prompts (out (snd (resetAction e s))) = prompts (out s)
    \<and> dbCalls (out (snd (resetAction e s))) =
        dbCalls (out s) @ CallDrop # CallMigrateDb True False #
          (if conf_AdminPassword e \<noteq> [] then [CallInitPassword (conf_AdminPassword e)] else [])
    \<and> fileCalls (out (snd (resetAction e s))) = fileCalls (out s)
    \<and> fs (snd (resetAction e s)) = fs s"
  using assms
  by (simp add: resetAction_def stageIndex_def Let_def dbCalls_resetIndexDb)

theorem yes_runs_index_stage_only_witness:
  "ctx_yes (install\<lparr>ctx_yes := True, ctx_index := False\<rparr>)
   \<and> fst (resetAction (install\<lparr>ctx_yes := True, ctx_index := False\<rparr>) start) = None
   \<and> prompts (out (snd (resetAction (install\<lparr>ctx_yes := True, ctx_index := False\<rparr>) start))) = []
   \<and> dbCalls (out (snd (resetAction (install\<lparr>ctx_yes := True, ctx_index := False\<rparr>) start))) =
        [CallDrop, CallMigrateDb True False, CallInitPassword ''secret123'']
   \<and> fileCalls (out (snd (resetAction (install\<lparr>ctx_yes := True, ctx_index := False\<rparr>) start))) = []
   \<and> fs (snd (resetAction (install\<lparr>ctx_yes := True, ctx_index := False\<rparr>) start)) = disk"
  using yes_runs_index_stage_only [of "install\<lparr>ctx_yes := True, ctx_index := False\<rparr>" start]
  by (simp add: install_def start_def)

text \<open>
  C8. With the flag \<open>index\<close> and without \<open>yes\<close>, a run that has passed the bootstrap shows
  exactly one prompt, the one of the index stage, and returns no error; it makes no call to
  the file system and leaves every file where it is. The schema reset is called when the
  prompt was affirmed and not called otherwise.
\<close>

theorem index_only_prompts_once:
  assumes "ctx_index e" and "\<not> ctx_yes e" and "conf_Init e = None"
  shows "fst (resetAction e s) = None
    \<and> prompts (out (snd (resetAction e s))) = prompts (out s) @ [index_label]
    \<and> fileCalls (out (snd (resetAction e s))) = fileCalls (out s)
    \<and> fs (snd (resetAction e s)) = fs s
    \<and> dbCalls (out (snd (resetAction e s))) =
        dbCalls (out s) @
          (case prompt_Run e index_label of
             Inl err \<Rightarrow> []
           | Inr a \<Rightarrow> CallDrop # CallMigrateDb True False #
               (if conf_AdminPassword e \<noteq> [] then [CallInitPassword (conf_AdminPassword e)]
                else []))"
  using assms
  by (simp add: resetAction_def stageIndex_def Let_def dbCalls_resetIndexDb split: sum.splits)

theorem index_only_prompts_once_witness:
  "ctx_index (install\<lparr>ctx_index := True, prompt_Run := (\<lambda>l. Inl ErrAbort)\<rparr>)
   \<and> \<not> ctx_yes (install\<lparr>ctx_index := True, prompt_Run := (\<lambda>l. Inl ErrAbort)\<rparr>)
   \<and> fst (resetAction (install\<lparr>ctx_index := True, prompt_Run := (\<lambda>l. Inl ErrAbort)\<rparr>) start) = None
   \<and> prompts (out (snd (resetAction
        (install\<lparr>ctx_index := True, prompt_Run := (\<lambda>l. Inl ErrAbort)\<rparr>) start))) = [index_label]
   \<and> dbCalls (out (snd (resetAction
        (install\<lparr>ctx_index := True, prompt_Run := (\<lambda>l. Inl ErrAbort)\<rparr>) start))) = []
   \<and> fst (resetAction (install\<lparr>ctx_index := True\<rparr>) start) = None
   \<and> prompts (out (snd (resetAction (install\<lparr>ctx_index := True\<rparr>) start))) = [index_label]
   \<and> dbCalls (out (snd (resetAction (install\<lparr>ctx_index := True\<rparr>) start))) =
        [CallDrop, CallMigrateDb True False, CallInitPassword ''secret123'']"
  using index_only_prompts_once
          [of "install\<lparr>ctx_index := True, prompt_Run := (\<lambda>l. Inl ErrAbort)\<rparr>" start]
        index_only_prompts_once [of "install\<lparr>ctx_index := True\<rparr>" start]
  by (simp add: install_def start_def)

subsection \<open>The removal loop\<close>

lemma fileCalls_removeEach:
  "fileCalls (out (removeEach rm CallRemove names s)) = fileCalls (out s) @ map CallRemove names"
  "fileCalls (out (removeEach rm CallRemoveAll names s)) =
     fileCalls (out s) @ map CallRemoveAll names"
  by (induction names arbitrary: s; simp add: Let_def)+

lemma markers_removeEach:
  "markers (out (removeEach rm CallRemove names s)) =
     markers (out s) @ map mark (outcomes rm names (fs s))"
  "markers (out (removeEach rm CallRemoveAll names s)) =
     markers (out s) @ map mark (outcomes rm names (fs s))"
  by (induction names arbitrary: s; simp add: Let_def mark_def)+

lemma fs_removeEach:
  "fs (removeEach rm call names s) = foldl (\<lambda>root name. snd (rm name root)) (fs s) names"
  by (induction names arbitrary: s) (simp_all add: Let_def)

lemma length_outcomes: "length (outcomes rm names root) = length names"
  by (induction names arbitrary: root) simp_all

lemma count_marks:
  "count_list (map mark rs) ''.'' = length (filter (\<lambda>r. r = None) rs)"
  "count_list (map mark rs) ''E'' = length (filter (\<lambda>r. r \<noteq> None) rs)"
  by (induction rs; simp add: mark_def)+

lemma marks_total:
  "count_list (map mark rs) ''.'' + count_list (map mark rs) ''E'' = length rs"
  by (induction rs) (simp_all add: mark_def)

lemma resetCache_found:
  assumes "filepath_Glob e (QuoteMeta (conf_CachePath e) @ ''/**'') (fs s) = Inr matches"
  shows "fileCalls (out (resetCache e s)) =
           fileCalls (out s) @ CallGlob (QuoteMeta (conf_CachePath e) @ ''/**'') #
             map CallRemoveAll matches"
    and "markers (out (resetCache e s)) =
           markers (out s) @ map mark (outcomes (os_RemoveAll e) matches (fs s)) @
             (if matches = [] then [] else [newline])"
    and "fs (resetCache e s) = foldl (\<lambda>root name. snd (os_RemoveAll e name root)) (fs s) matches"
  using assms
  by (simp_all add: resetCache_def Let_def fileCalls_removeEach markers_removeEach fs_removeEach)

lemma resetSidecarJson_found:
  assumes "filepath_Glob e (QuoteMeta (conf_SidecarPath e) @ ''/**/*.json'') (fs s) = Inr matches"
  shows "fileCalls (out (resetSidecarJson e s)) =
           fileCalls (out s) @ CallGlob (QuoteMeta (conf_SidecarPath e) @ ''/**/*.json'') #
             map CallRemove matches"
    and "markers (out (resetSidecarJson e s)) =
           markers (out s) @ map mark (outcomes (os_Remove e) matches (fs s)) @
             (if matches = [] then [] else [newline])"
    and "fs (resetSidecarJson e s) = foldl (\<lambda>root name. snd (os_Remove e name root)) (fs s) matches"
  using assms
  by (simp_all add: resetSidecarJson_def Let_def fileCalls_removeEach markers_removeEach
      fs_removeEach)

lemma resetSidecarYaml_found:
  assumes "filepath_Glob e (QuoteMeta (conf_SidecarPath e) @ ''/**/*.yml'') (fs s) = Inr matches"
  shows "fileCalls (out (resetSidecarYaml e s)) =
           fileCalls (out s) @ CallGlob (QuoteMeta (conf_SidecarPath e) @ ''/**/*.yml'') #
             map CallRemove matches"
    and "markers (out (resetSidecarYaml e s)) =
           markers (out s) @ map mark (outcomes (os_Remove e) matches (fs s)) @
             (if matches = [] then [] else [newline])"
    and "fs (resetSidecarYaml e s) = foldl (\<lambda>root name. snd (os_Remove e name root)) (fs s) matches"
  using assms
  by (simp_all add: resetSidecarYaml_def Let_def fileCalls_removeEach markers_removeEach
      fs_removeEach)

lemma resetAlbumYaml_found:
  assumes "filepath_Glob e (QuoteMeta (conf_AlbumsPath e) @ ''/**/*.yml'') (fs s) = Inr matches"
  shows "fileCalls (out (snd (resetAlbumYaml e s))) =
           fileCalls (out s) @ CallGlob (QuoteMeta (conf_AlbumsPath e) @ ''/**/*.yml'') #
             map CallRemove matches"
    and "markers (out (snd (resetAlbumYaml e s))) =
           markers (out s) @ map mark (outcomes (os_Remove e) matches (fs s)) @
             (if matches = [] then [] else [newline])"
    and "fs (snd (resetAlbumYaml e s)) =
           foldl (\<lambda>root name. snd (os_Remove e name root)) (fs s) matches"
    and "fst (resetAlbumYaml e s) = None"
  using assms
  by (simp_all add: resetAlbumYaml_def Let_def fileCalls_removeEach markers_removeEach
      fs_removeEach)

text \<open>
  C5. The loop of a removal stage calls its primitive on every match, in the order of the
  matches, whatever the earlier calls returned (the calls made are exactly one per name);
  it prints exactly one marker per match, \<open>.\<close> when the call returned no error and \<open>E\<close>
  when it returned one; and the number of matches is the number of \<open>.\<close> plus the number
  of \<open>E\<close>. This holds for every removal primitive, so for every way in which single
  removals fail. The last four parts are the markers that each stage prints for the matches
  its enumeration returned (followed by the newline when there was a match at all).
\<close>

theorem every_match_attempted_and_marked:
  "fileCalls (out (removeEach rm CallRemove names s)) = fileCalls (out s) @ map CallRemove names
   \<and> fileCalls (out (removeEach rm CallRemoveAll names s)) =
       fileCalls (out s) @ map CallRemoveAll names
   \<and> markers (out (removeEach rm CallRemove names s)) =
       markers (out s) @ map mark (outcomes rm names (fs s))
   \<and> markers (out (removeEach rm CallRemoveAll names s)) =
       markers (out s) @ map mark (outcomes rm names (fs s))
   \<and> length (map mark (outcomes rm names (fs s))) = length names
   \<and> count_list (map mark (outcomes rm names (fs s))) ''.'' =
       length (filter (\<lambda>r. r = None) (outcomes rm names (fs s)))
   \<and> count_list (map mark (outcomes rm names (fs s))) ''E'' =
       length (filter (\<lambda>r. r \<noteq> None) (outcomes rm names (fs s)))
   \<and> length names =
       count_list (map mark (outcomes rm names (fs s))) ''.'' +
       count_list (map mark (outcomes rm names (fs s))) ''E''
   \<and> (filepath_Glob e (QuoteMeta (conf_CachePath e) @ ''/**'') (fs s) = Inr names \<longrightarrow>
        markers (out (resetCache e s)) =
          markers (out s) @ map mark (outcomes (os_RemoveAll e) names (fs s)) @
            (if names = [] then [] else [newline]))
   \<and> (filepath_Glob e (QuoteMeta (conf_SidecarPath e) @ ''/**/*.json'') (fs s) = Inr names \<longrightarrow>
        markers (out (resetSidecarJson e s)) =
          markers (out s) @ map mark (outcomes (os_Remove e) names (fs s)) @
            (if names = [] then [] else [newline]))
   \<and> (filepath_Glob e (QuoteMeta (conf_SidecarPath e) @ ''/**/*.yml'') (fs s) = Inr names \<longrightarrow>
        markers (out (resetSidecarYaml e s)) =
          markers (out s) @ map mark (outcomes (os_Remove e) names (fs s)) @
            (if names = [] then [] else [newline]))
   \<and> (filepath_Glob e (QuoteMeta (conf_AlbumsPath e) @ ''/**/*.yml'') (fs s) = Inr names \<longrightarrow>
        markers (out (snd (resetAlbumYaml e s))) =
          markers (out s) @ map mark (outcomes (os_Remove e) names (fs s)) @
            (if names = [] then [] else [newline]))"
proof -
  have total: "length names =
      count_list (map mark (outcomes rm names (fs s))) ''.'' +
      count_list (map mark (outcomes rm names (fs s))) ''E''"
    using marks_total [of "outcomes rm names (fs s)"] by (simp add: length_outcomes)
  show ?thesis
    apply (intro conjI impI)
               apply (simp_all only: fileCalls_removeEach markers_removeEach count_marks
        resetCache_found resetSidecarJson_found resetSidecarYaml_found resetAlbumYaml_found)
     apply (simp add: length_outcomes)
    apply (simp only: total count_marks)
    done
qed

lemma albums_found:
  "filepath_Glob install (QuoteMeta (conf_AlbumsPath install) @ ''/**/*.yml'') (fs start) =
     Inr [''/data/albums/2020/full.yml'', ''/data/albums/2020/trip.yml'']"
  by code_simp

lemma albums_outcomes:
  "outcomes (os_Remove install) [''/data/albums/2020/full.yml'', ''/data/albums/2020/trip.yml'']
     (fs start) = [Some ENOTEMPTY, None]"
  by code_simp

lemma found_on_disk:
  "filepath_Glob install (QuoteMeta (conf_CachePath install) @ ''/**'') (fs start) =
     Inr [''/data/cache/thumbs'', ''/data/cache/tmp'']"
  "filepath_Glob (install\<lparr>conf_SidecarPath := ''/data/a[b]''\<rparr>)
     (QuoteMeta (conf_SidecarPath (install\<lparr>conf_SidecarPath := ''/data/a[b]''\<rparr>)) @ ''/**/*.json'')
     (fs start) = Inr [''/data/a[b]/k/m.json'']"
  "filepath_Glob (install\<lparr>conf_SidecarPath := ''/data/a[b]''\<rparr>)
     (QuoteMeta (conf_SidecarPath (install\<lparr>conf_SidecarPath := ''/data/a[b]''\<rparr>)) @ ''/**/*.yml'')
     (fs start) = Inr []"
  by code_simp+

lemma outcomes_on_disk:
  "outcomes (os_RemoveAll install) [''/data/cache/thumbs'', ''/data/cache/tmp''] (fs start) =
     [None, None]"
  "outcomes (os_Remove (install\<lparr>conf_SidecarPath := ''/data/a[b]''\<rparr>)) [''/data/a[b]/k/m.json'']
     (fs start) = [None]"
  by code_simp+

theorem every_match_attempted_and_marked_witness:
  "markers (out (snd (resetAlbumYaml install start))) = [''E'', ''.'', newline]
   \<and> fileCalls (out (removeEach (os_Remove install) CallRemove
        [''/data/albums/2020/full.yml'', ''/data/albums/2020/trip.yml''] start)) =
       [CallRemove ''/data/albums/2020/full.yml'', CallRemove ''/data/albums/2020/trip.yml'']
   \<and> markers (out (removeEach (os_Remove install) CallRemove
        [''/data/albums/2020/full.yml'', ''/data/albums/2020/trip.yml''] start)) = [''E'', ''.'']
   \<and> markers (out (resetCache install start)) = [''.'', ''.'', newline]
   \<and> markers (out (resetSidecarJson (install\<lparr>conf_SidecarPath := ''/data/a[b]''\<rparr>) start)) =
       [''.'', newline]
   \<and> markers (out (resetSidecarYaml (install\<lparr>conf_SidecarPath := ''/data/a[b]''\<rparr>) start)) = []"
proof -
  have albums: "markers (out (snd (resetAlbumYaml install start))) = [''E'', ''.'', newline]
   \<and> fileCalls (out (removeEach (os_Remove install) CallRemove
        [''/data/albums/2020/full.yml'', ''/data/albums/2020/trip.yml''] start)) =
       [CallRemove ''/data/albums/2020/full.yml'', CallRemove ''/data/albums/2020/trip.yml'']
   \<and> markers (out (removeEach (os_Remove install) CallRemove
        [''/data/albums/2020/full.yml'', ''/data/albums/2020/trip.yml''] start)) = [''E'', ''.'']"
    using every_match_attempted_and_marked
          [where rm = "os_Remove install" and s = start and e = install
             and names = "[''/data/albums/2020/full.yml'', ''/data/albums/2020/trip.yml'']"]
        albums_found albums_outcomes
    by (simp add: start_def mark_def)
  have cache: "markers (out (resetCache install start)) = [''.'', ''.'', newline]"
    using every_match_attempted_and_marked
          [where rm = "os_RemoveAll install" and s = start and e = install
             and names = "[''/data/cache/thumbs'', ''/data/cache/tmp'']"]
        found_on_disk(1) outcomes_on_disk(1)
    by (simp add: start_def mark_def)
  have json:
    "markers (out (resetSidecarJson (install\<lparr>conf_SidecarPath := ''/data/a[b]''\<rparr>) start)) =
       [''.'', newline]"
    using every_match_attempted_and_marked
          [where rm = "os_Remove install" and s = start
             and e = "install\<lparr>conf_SidecarPath := ''/data/a[b]''\<rparr>"
             and names = "[''/data/a[b]/k/m.json'']"]
        found_on_disk(2) outcomes_on_disk(2)
    by (simp add: start_def mark_def)
  have yaml:
    "markers (out (resetSidecarYaml (install\<lparr>conf_SidecarPath := ''/data/a[b]''\<rparr>) start)) = []"
    using every_match_attempted_and_marked
          [where rm = "os_Remove install" and s = start
             and e = "install\<lparr>conf_SidecarPath := ''/data/a[b]''\<rparr>"
             and names = "[]"]
        found_on_disk(3)
    by (simp add: start_def mark_def)
  from albums cache json yaml show ?thesis by blast
qed

subsection \<open>Declined stages and failed enumerations\<close>

text \<open>
  C4. The gate of a stage opens only when \<open>Run\<close> returned no error. For every error that
  \<open>Run\<close> returns (a declined confirmation, an interrupt, the end of the input), the stage
  leaves every file and the database as they are, makes no call, and logs its line
  "keeping ..." after the prompt; this holds for the four stages of files and, without the
  flag \<open>yes\<close>, for the index stage. Whatever the answers are, a run without the flags
  \<open>index\<close> and \<open>yes\<close> shows all five prompts in their order: a declined stage never ends
  the run.
\<close>

theorem declined_stage_keeps_files:
  "(prompt_Run e cache_label = Inl err \<longrightarrow>
      fs (stageCache e s) = fs s \<and> dbs (stageCache e s) = dbs s \<and>
      out (stageCache e s) = out s @ [Prompt cache_label, Log Info ''keeping cache files'' []])
   \<and> (prompt_Run e json_label = Inl err \<longrightarrow>
      fs (stageSidecarJson e s) = fs s \<and> dbs (stageSidecarJson e s) = dbs s \<and>
      out (stageSidecarJson e s) =
        out s @ [Prompt json_label, Log Info ''keeping *.json sidecar files'' []])
   \<and> (prompt_Run e yaml_label = Inl err \<longrightarrow>
      fs (stageSidecarYaml e s) = fs s \<and> dbs (stageSidecarYaml e s) = dbs s \<and>
      out (stageSidecarYaml e s) =
        out s @ [Prompt yaml_label, Log Info ''keeping *.yml metadata files'' []])
   \<and> (prompt_Run e album_label = Inl err \<longrightarrow>
      fst (stageAlbumYaml e s) = None \<and>
      fs (snd (stageAlbumYaml e s)) = fs s \<and> dbs (snd (stageAlbumYaml e s)) = dbs s \<and>
      out (snd (stageAlbumYaml e s)) =
        out s @ [Prompt album_label, Log Info ''keeping *.yml album files'' []])
   \<and> (\<not> ctx_yes e \<and> prompt_Run e index_label = Inl err \<longrightarrow>
      fs (stageIndex e s) = fs s \<and> dbs (stageIndex e s) = dbs s \<and>
      out (stageIndex e s) = out s @ [Prompt index_label, Log Info ''keeping index database'' []])
   \<and> (conf_Init e = None \<and> \<not> ctx_index e \<and> \<not> ctx_yes e \<longrightarrow>
      prompts (out (snd (resetAction e s))) =
        prompts (out s) @ [index_label, cache_label, json_label, yaml_label, album_label])"
  by (simp add: stageCache_def stageSidecarJson_def stageSidecarYaml_def stageAlbumYaml_def
      stageIndex_def Let_def all_stages_prompted)

theorem declined_stage_keeps_files_witness:
  "prompt_Run declining cache_label = Inl ErrInterrupt
   \<and> fs (stageCache declining start) = disk
   \<and> out (stageCache declining start) = [Prompt cache_label, Log Info ''keeping cache files'' []]
   \<and> fs (stageSidecarYaml declining start) = disk
   \<and> fs (snd (stageAlbumYaml declining start)) = disk
   \<and> dbs (stageIndex declining start) = dbs start
   \<and> prompts (out (snd (resetAction declining start))) =
       [index_label, cache_label, json_label, yaml_label, album_label]
   \<and> prompt_Run (install\<lparr>prompt_Run := (\<lambda>label. Inl ErrAbort)\<rparr>) json_label = Inl ErrAbort
   \<and> fs (stageSidecarJson (install\<lparr>prompt_Run := (\<lambda>label. Inl ErrAbort)\<rparr>) start) = disk
   \<and> out (stageSidecarJson (install\<lparr>prompt_Run := (\<lambda>label. Inl ErrAbort)\<rparr>) start) =
       [Prompt json_label, Log Info ''keeping *.json sidecar files'' []]"
  using declined_stage_keeps_files [of declining ErrInterrupt start]
    declined_stage_keeps_files [of "install\<lparr>prompt_Run := (\<lambda>label. Inl ErrAbort)\<rparr>" ErrAbort start]
  by (simp add: declining_def install_def start_def cache_label_def json_label_def
      yaml_label_def album_label_def index_label_def)

text \<open>
  C7. An error of the enumeration of the \<open>*.json\<close> or of the \<open>*.yml\<close> sidecar files is
  logged, nothing is removed and the function returns to \<open>resetAction\<close>, which goes on:
  all five prompts are shown whatever the enumerations return. An error of the
  enumeration of the album files is the result of \<open>resetAction\<close>; no other result of an
  enumeration is: when the album enumeration works, the run returns no error.
\<close>

theorem enumeration_errors_by_stage:
  "(filepath_Glob e (QuoteMeta (conf_SidecarPath e) @ ''/**/*.json'') (fs s) = Inl err \<longrightarrow>
      fs (resetSidecarJson e s) = fs s \<and>
      out (resetSidecarJson e s) =
        out s @ [CallGlob (QuoteMeta (conf_SidecarPath e) @ ''/**/*.json''),
                 Log Error ''reset: %s (find *.json sidecar files)'' [ArgErr err]])
   \<and> (filepath_Glob e (QuoteMeta (conf_SidecarPath e) @ ''/**/*.yml'') (fs s) = Inl err \<longrightarrow>
      fs (resetSidecarYaml e s) = fs s \<and>
      out (resetSidecarYaml e s) =
        out s @ [CallGlob (QuoteMeta (conf_SidecarPath e) @ ''/**/*.yml''),
                 Log Error ''reset: %s (find *.yml metadata files)'' [ArgErr err]])
   \<and> (filepath_Glob e (QuoteMeta (conf_AlbumsPath e) @ ''/**/*.yml'') (fs s) = Inl err \<longrightarrow>
      fst (resetAlbumYaml e s) = Some err \<and>
      fs (snd (resetAlbumYaml e s)) = fs s \<and>
      out (snd (resetAlbumYaml e s)) =
        out s @ [CallGlob (QuoteMeta (conf_AlbumsPath e) @ ''/**/*.yml'')])
   \<and> (conf_Init e = None \<and> \<not> ctx_index e \<and> \<not> ctx_yes e \<longrightarrow>
      prompts (out (snd (resetAction e s))) =
        prompts (out s) @ [index_label, cache_label, json_label, yaml_label, album_label])
   \<and> (conf_Init e = None \<and> \<not> ctx_index e \<and> \<not> ctx_yes e \<and>
      prompt_Run e album_label = Inr answer \<and>
      (\<forall>root. filepath_Glob e (QuoteMeta (conf_AlbumsPath e) @ ''/**/*.yml'') root = Inl err) \<longrightarrow>
      fst (resetAction e s) = Some err)
   \<and> (conf_Init e = None \<and> \<not> ctx_index e \<and> \<not> ctx_yes e \<and>
      (\<forall>root. \<exists>ms. filepath_Glob e (QuoteMeta (conf_AlbumsPath e) @ ''/**/*.yml'') root = Inr ms) \<longrightarrow>
      fst (resetAction e s) = None)"
proof -
  have stage: "fst (resetAction e s) =
      fst (resetAlbumYaml e (emit (Prompt album_label)
        (stageSidecarYaml e (stageSidecarJson e (stageCache e (stageIndex e
          (announce e (emit CallSetDbProvider (emit CallInit s)))))))))"
    if "conf_Init e = None" "\<not> ctx_index e" "\<not> ctx_yes e" "prompt_Run e album_label = Inr answer"
    for answer
    using that by (simp add: resetAction_def stageAlbumYaml_def Let_def)
  have declined: "fst (resetAction e s) = None"
    if "conf_Init e = None" "\<not> ctx_index e" "\<not> ctx_yes e" "prompt_Run e album_label = Inl x"
    for x
    using that by (simp add: resetAction_def stageAlbumYaml_def Let_def)
  have failing: "fst (resetAlbumYaml e t) = Some err"
    if "\<forall>root. filepath_Glob e (QuoteMeta (conf_AlbumsPath e) @ ''/**/*.yml'') root = Inl err"
    for t
    using that by (simp add: resetAlbumYaml_def Let_def)
  have working: "fst (resetAlbumYaml e t) = None"
    if "\<forall>root. \<exists>ms. filepath_Glob e (QuoteMeta (conf_AlbumsPath e) @ ''/**/*.yml'') root = Inr ms"
    for t
  proof -
    from that obtain ms where
      "filepath_Glob e (QuoteMeta (conf_AlbumsPath e) @ ''/**/*.yml'') (fs (emit (CallGlob (QuoteMeta (conf_AlbumsPath e) @ ''/**/*.yml'')) t)) = Inr ms"
      by blast
    then show ?thesis by (simp add: resetAlbumYaml_def Let_def)
  qed
  have json: "filepath_Glob e (QuoteMeta (conf_SidecarPath e) @ ''/**/*.json'') (fs s) = Inl err \<longrightarrow>
      fs (resetSidecarJson e s) = fs s \<and>
      out (resetSidecarJson e s) =
        out s @ [CallGlob (QuoteMeta (conf_SidecarPath e) @ ''/**/*.json''),
                 Log Error ''reset: %s (find *.json sidecar files)'' [ArgErr err]]"
    by (simp add: resetSidecarJson_def Let_def)
  have yaml: "filepath_Glob e (QuoteMeta (conf_SidecarPath e) @ ''/**/*.yml'') (fs s) = Inl err \<longrightarrow>
      fs (resetSidecarYaml e s) = fs s \<and>
      out (resetSidecarYaml e s) =
        out s @ [CallGlob (QuoteMeta (conf_SidecarPath e) @ ''/**/*.yml''),
                 Log Error ''reset: %s (find *.yml metadata files)'' [ArgErr err]]"
    by (simp add: resetSidecarYaml_def Let_def)
  have album: "filepath_Glob e (QuoteMeta (conf_AlbumsPath e) @ ''/**/*.yml'') (fs s) = Inl err \<longrightarrow>
      fst (resetAlbumYaml e s) = Some err \<and>
      fs (snd (resetAlbumYaml e s)) = fs s \<and>
      out (snd (resetAlbumYaml e s)) =
        out s @ [CallGlob (QuoteMeta (conf_AlbumsPath e) @ ''/**/*.yml'')]"
    by (simp add: resetAlbumYaml_def Let_def)
  have fatal: "conf_Init e = None \<and> \<not> ctx_index e \<and> \<not> ctx_yes e \<and>
      prompt_Run e album_label = Inr answer \<and>
      (\<forall>root. filepath_Glob e (QuoteMeta (conf_AlbumsPath e) @ ''/**/*.yml'') root = Inl err) \<longrightarrow>
      fst (resetAction e s) = Some err"
    using stage failing by simp
  have fine: "conf_Init e = None \<and> \<not> ctx_index e \<and> \<not> ctx_yes e \<and>
      (\<forall>root. \<exists>ms. filepath_Glob e (QuoteMeta (conf_AlbumsPath e) @ ''/**/*.yml'') root = Inr ms) \<longrightarrow>
      fst (resetAction e s) = None"
  proof (cases "prompt_Run e album_label")
    case (Inl x)
    with declined show ?thesis by simp
  next
    case (Inr a)
    with stage working show ?thesis by simp
  qed
  from json yaml album fatal fine all_stages_prompted [of e s] show ?thesis by blast
qed

theorem enumeration_errors_by_stage_witness:
  "filepath_Glob unreadable (QuoteMeta (conf_SidecarPath unreadable) @ ''/**/*.json'') (fs start)
     = Inl ErrBadPattern
   \<and> fs (resetSidecarJson unreadable start) = disk
   \<and> out (resetSidecarJson unreadable start) =
       [CallGlob ''/data/sidecar/**/*.json'',
        Log Error ''reset: %s (find *.json sidecar files)'' [ArgErr ErrBadPattern]]
   \<and> fs (resetSidecarYaml unreadable start) = disk
   \<and> fst (resetAlbumYaml unreadable start) = Some ErrBadPattern
   \<and> prompts (out (snd (resetAction unreadable start))) =
       [index_label, cache_label, json_label, yaml_label, album_label]
   \<and> fst (resetAction unreadable start) = Some ErrBadPattern
   \<and> fst (resetAction (unreadable\<lparr>filepath_Glob := (\<lambda>pattern root.
           if pattern = ''/data/albums/**/*.yml'' then Inr [] else Inl ErrBadPattern)\<rparr>) start) = None"
  using enumeration_errors_by_stage [of unreadable start ErrBadPattern "''y''"]
    enumeration_errors_by_stage [of "unreadable\<lparr>filepath_Glob := (\<lambda>pattern root.
           if pattern = ''/data/albums/**/*.yml'' then Inr [] else Inl ErrBadPattern)\<rparr>"
           start ErrBadPattern "''y''"]
  by (simp add: unreadable_def install_def start_def QuoteMeta_def special_def backslash_def)

subsection \<open>The schema reset and the result of the command\<close>











text \<open>
  C9. With a configured password that is not empty, \<open>resetIndexDb\<close> calls the drop, the
  migration and then the initialisation of the password with exactly the configured value,
  and the database is what these three calls leave in this order; with the operations of
  the spec the credential, which the drop has erased, is the configured password
  afterwards, and the tables of the schema exist. With an empty password the initialisation
  is not called: the calls are the drop and the migration only.
\<close>

theorem admin_password_restored:
  "(conf_AdminPassword e \<noteq> [] \<longrightarrow>
      dbCalls (out (resetIndexDb e s)) =
        dbCalls (out s) @
          [CallDrop, CallMigrateDb True False, CallInitPassword (conf_AdminPassword e)] \<and>
      snd (admin_InitPassword e (conf_AdminPassword e)
          (snd (entity_MigrateDb e True False (snd (tables_Drop e (dbs s)))))) =
        dbs (resetIndexDb e s))
   \<and> (conf_AdminPassword e \<noteq> [] \<and> admin_InitPassword e = initAdminPassword \<longrightarrow>
      db_admin_credential (dbs (resetIndexDb e s)) = Some (conf_AdminPassword e))
   \<and> (conf_AdminPassword e \<noteq> [] \<and> admin_InitPassword e = initAdminPassword \<and>
      tables_Drop e = dropAll entities \<and> entity_MigrateDb e = migrate entities \<longrightarrow>
      db_admin_credential (snd (tables_Drop e (dbs s))) = None \<and>
      db_admin_credential (dbs (resetIndexDb e s)) = Some (conf_AdminPassword e) \<and>
      set entities \<subseteq> set (db_tables (dbs (resetIndexDb e s))))
   \<and> (conf_AdminPassword e = [] \<longrightarrow>
      dbCalls (out (resetIndexDb e s)) = dbCalls (out s) @ [CallDrop, CallMigrateDb True False] \<and>
      snd (entity_MigrateDb e True False (snd (tables_Drop e (dbs s)))) = dbs (resetIndexDb e s))
   \<and> (conf_AdminPassword e = [] \<and>
      tables_Drop e = dropAll entities \<and> entity_MigrateDb e = migrate entities \<longrightarrow>
      db_admin_credential (dbs (resetIndexDb e s)) = None)"
  by (auto simp add: resetIndexDb_def Let_def initAdminPassword_def dropAll_def migrate_def)

theorem admin_password_restored_witness:
  "conf_AdminPassword install = ''secret123''
   \<and> db_admin_credential (dbs start) = Some ''old''
   \<and> db_admin_credential (snd (tables_Drop install (dbs start))) = None
   \<and> db_admin_credential (dbs (resetIndexDb install start)) = Some ''secret123''
   \<and> dbCalls (out (resetIndexDb install start)) =
       [CallDrop, CallMigrateDb True False, CallInitPassword ''secret123'']
   \<and> dbCalls (out (resetIndexDb (install\<lparr>conf_AdminPassword := []\<rparr>) start)) =
       [CallDrop, CallMigrateDb True False]
   \<and> db_admin_credential (dbs (resetIndexDb (install\<lparr>conf_AdminPassword := []\<rparr>) start)) = None"
  using admin_password_restored [where e = install and s = start
          and entities = "[''photos'', ''passwords'']"]
        admin_password_restored [where e = "install\<lparr>conf_AdminPassword := []\<rparr>" and s = start
          and entities = "[''photos'', ''passwords'']"]
  by (simp add: install_def start_def dropAll_def)

subsection \<open>The removal primitive of each stage\<close>

lemma Remove_full_directory:
  assumes "Stat root name = Inr (Dir (x # xs))"
  shows "fst (Remove name root) \<noteq> None" and "snd (Remove name root) = root"
  using assms
  by (auto simp add: Stat_def Remove_def split: sum.splits option.splits)

lemma map_of_changed:
  "map_of (map (\<lambda>e. if fst e = c then (fst e, f (snd e)) else e) es) c = map_option f (map_of es c)"
  by (induction es) auto

lemma map_of_unchanged:
  "c' \<noteq> c \<Longrightarrow>
     map_of (map (\<lambda>e. if fst e = c then (fst e, f (snd e)) else e) es) c' = map_of es c'"
  by (induction es) auto

lemma map_of_removed: "map_of (filter (\<lambda>e. fst e \<noteq> c) es) c = None"
  by (induction es) auto

lemma map_of_kept: "c' \<noteq> c \<Longrightarrow> map_of (filter (\<lambda>e. fst e \<noteq> c) es) c' = map_of es c'"
  by (induction es) auto

lemma lookup_delete:
  "cur \<noteq> [] \<Longrightarrow> lookup (delete cur root) (cur @ below) = None"
proof (induction cur root rule: delete.induct)
  case (1 n)
  then show ?case by simp
next
  case (2 c cs)
  then show ?case by simp
next
  case (3 c es)
  then show ?case by (simp add: map_of_removed)
next
  case (4 c v va es)
  show ?case
  proof (cases "map_of es c")
    case None
    then show ?thesis by (simp add: map_of_changed)
  next
    case (Some m)
    then have "(c, m) \<in> set es" by (rule map_of_SomeD)
    from "4.IH" [OF this] Some show ?thesis
      by (simp add: map_of_changed)
  qed
qed

lemma RemoveAll_deletes:
  assumes "resolve root name = Inr cur" and "cur \<noteq> []"
    and "lastElem name \<noteq> ''.''" and "lastElem name \<noteq> ''..''"
  shows "RemoveAll name root = (None, delete cur root)"
proof -
  from assms(1) have "name \<noteq> []" by (auto simp add: resolve_def split: if_splits)
  with assms show ?thesis by (simp add: RemoveAll_def)
qed

lemma lookup_delete_beside:
  "c' \<noteq> c \<Longrightarrow> lookup (delete (q @ c # r') root) (q @ c' # r) = lookup root (q @ c' # r)"
proof (induction q arbitrary: root)
  case Nil
  show ?case
  proof (cases root)
    case File
    then show ?thesis by simp
  next
    case (Dir es)
    with Nil show ?thesis
      by (cases r') (simp_all add: map_of_kept map_of_unchanged)
  qed
next
  case (Cons a q)
  show ?case
  proof (cases root)
    case File
    then show ?thesis by simp
  next
    case (Dir es)
    obtain b bs where tail: "q @ c # r' = b # bs" by (cases "q @ c # r'") auto
    show ?thesis
    proof (cases "map_of es a")
      case None
      with Dir tail show ?thesis by (simp add: map_of_changed)
    next
      case (Some m)
      with Dir tail Cons.IH [OF Cons.prems, of m] show ?thesis
        by (simp add: map_of_changed)
    qed
  qed
qed

text \<open>
  C10. For the matches its enumeration returned, the cache stage calls \<open>os.RemoveAll\<close> on
  each and the file system afterwards is what these calls leave; the stages of the
  \<open>*.json\<close> sidecar files, the \<open>*.yml\<close> sidecar files and the album files call
  \<open>os.Remove\<close> on each. On a directory that is not empty \<open>os.Remove\<close> returns an error
  and changes nothing, so the item is marked \<open>E\<close> and stays; \<open>os.RemoveAll\<close> on a path
  that resolves (not the root, not ending in \<open>.\<close> or \<open>..\<close>) returns no error, the item
  is marked \<open>.\<close>, and neither the path nor anything below it exists afterwards, while a
  path that leaves the removed one at some element is what it was.
\<close>

theorem removal_primitive_by_stage:
  "(filepath_Glob e (QuoteMeta (conf_CachePath e) @ ''/**'') (fs s) = Inr matches \<longrightarrow>
      fileCalls (out (resetCache e s)) =
        fileCalls (out s) @ CallGlob (QuoteMeta (conf_CachePath e) @ ''/**'') #
          map CallRemoveAll matches \<and>
      fs (resetCache e s) = foldl (\<lambda>root name. snd (os_RemoveAll e name root)) (fs s) matches)
   \<and> (filepath_Glob e (QuoteMeta (conf_SidecarPath e) @ ''/**/*.json'') (fs s) = Inr matches \<longrightarrow>
      fileCalls (out (resetSidecarJson e s)) =
        fileCalls (out s) @ CallGlob (QuoteMeta (conf_SidecarPath e) @ ''/**/*.json'') #
          map CallRemove matches \<and>
      fs (resetSidecarJson e s) = foldl (\<lambda>root name. snd (os_Remove e name root)) (fs s) matches)
   \<and> (filepath_Glob e (QuoteMeta (conf_SidecarPath e) @ ''/**/*.yml'') (fs s) = Inr matches \<longrightarrow>
      fileCalls (out (resetSidecarYaml e s)) =
        fileCalls (out s) @ CallGlob (QuoteMeta (conf_SidecarPath e) @ ''/**/*.yml'') #
          map CallRemove matches \<and>
      fs (resetSidecarYaml e s) = foldl (\<lambda>root name. snd (os_Remove e name root)) (fs s) matches)
   \<and> (filepath_Glob e (QuoteMeta (conf_AlbumsPath e) @ ''/**/*.yml'') (fs s) = Inr matches \<longrightarrow>
      fileCalls (out (snd (resetAlbumYaml e s))) =
        fileCalls (out s) @ CallGlob (QuoteMeta (conf_AlbumsPath e) @ ''/**/*.yml'') #
          map CallRemove matches \<and>
      fs (snd (resetAlbumYaml e s)) =
        foldl (\<lambda>root name. snd (os_Remove e name root)) (fs s) matches)
   \<and> (Stat root name = Inr (Dir (x # xs)) \<longrightarrow>
      fst (Remove name root) \<noteq> None \<and> snd (Remove name root) = root \<and>
      mark (fst (Remove name root)) = ''E'')
   \<and> (resolve root name = Inr cur \<and> cur \<noteq> [] \<and>
      lastElem name \<noteq> ''.'' \<and> lastElem name \<noteq> ''..'' \<longrightarrow>
      RemoveAll name root = (None, delete cur root) \<and>
      mark (fst (RemoveAll name root)) = ''.'' \<and>
      lookup (delete cur root) (cur @ below) = None)
   \<and> (c' \<noteq> c \<longrightarrow>
      lookup (delete (q @ c # r') root) (q @ c' # r) = lookup root (q @ c' # r))"
proof -
  have full: "Stat root name = Inr (Dir (x # xs)) \<longrightarrow>
      fst (Remove name root) \<noteq> None \<and> snd (Remove name root) = root \<and>
      mark (fst (Remove name root)) = ''E''"
    using Remove_full_directory [of root name x xs] by (simp add: mark_def)
  have all: "resolve root name = Inr cur \<and> cur \<noteq> [] \<and>
      lastElem name \<noteq> ''.'' \<and> lastElem name \<noteq> ''..'' \<longrightarrow>
      RemoveAll name root = (None, delete cur root) \<and>
      mark (fst (RemoveAll name root)) = ''.'' \<and>
      lookup (delete cur root) (cur @ below) = None"
    using RemoveAll_deletes [of root name cur] lookup_delete [of cur root below]
    by (simp add: mark_def)
  from full all lookup_delete_beside [of c' c q r' root r]
    resetCache_found(1,3) [of e s matches] resetSidecarJson_found(1,3) [of e s matches]
    resetSidecarYaml_found(1,3) [of e s matches] resetAlbumYaml_found(1,3) [of e s matches]
  show ?thesis by blast
qed

lemma thumbs_resolved:
  "Stat disk ''/data/cache/thumbs'' = Inr (Dir [(''1.jpg'', File), (''2.jpg'', File)])"
  "resolve disk ''/data/cache/thumbs'' = Inr [''data'', ''cache'', ''thumbs'']"
  "lastElem ''/data/cache/thumbs'' = ''thumbs''"
  by code_simp+

lemma install_patterns:
  "QuoteMeta (conf_CachePath install) @ ''/**'' = ''/data/cache/**''"
  "QuoteMeta (conf_AlbumsPath install) @ ''/**/*.yml'' = ''/data/albums/**/*.yml''"
  "QuoteMeta (conf_SidecarPath install) @ ''/**/*.json'' = ''/data/sidecar/**/*.json''"
  "QuoteMeta (conf_SidecarPath install) @ ''/**/*.yml'' = ''/data/sidecar/**/*.yml''"
  by code_simp+

theorem removal_primitive_by_stage_witness:
  "fileCalls (out (resetCache install start)) =
     [CallGlob ''/data/cache/**'', CallRemoveAll ''/data/cache/thumbs'',
      CallRemoveAll ''/data/cache/tmp'']
   \<and> fileCalls (out (snd (resetAlbumYaml install start))) =
     [CallGlob ''/data/albums/**/*.yml'', CallRemove ''/data/albums/2020/full.yml'',
      CallRemove ''/data/albums/2020/trip.yml'']
   \<and> fileCalls (out (resetSidecarJson (install\<lparr>conf_SidecarPath := ''/data/a[b]''\<rparr>) start)) =
     [CallGlob (QuoteMeta ''/data/a[b]'' @ ''/**/*.json''), CallRemove ''/data/a[b]/k/m.json'']
   \<and> fileCalls (out (resetSidecarYaml (install\<lparr>conf_SidecarPath := ''/data/a[b]''\<rparr>) start)) =
     [CallGlob (QuoteMeta ''/data/a[b]'' @ ''/**/*.yml'')]
   \<and> Stat disk ''/data/cache/thumbs'' = Inr (Dir [(''1.jpg'', File), (''2.jpg'', File)])
   \<and> fst (Remove ''/data/cache/thumbs'' disk) \<noteq> None
   \<and> snd (Remove ''/data/cache/thumbs'' disk) = disk
   \<and> RemoveAll ''/data/cache/thumbs'' disk = (None, delete [''data'', ''cache'', ''thumbs''] disk)
   \<and> lookup (delete [''data'', ''cache'', ''thumbs''] disk) [''data'', ''cache'', ''thumbs''] = None
   \<and> lookup (delete [''data'', ''cache'', ''thumbs''] disk)
        [''data'', ''cache'', ''thumbs'', ''1.jpg''] = None
   \<and> lookup (delete [''data'', ''cache'', ''thumbs''] disk) [''data'', ''cache'', ''tmp''] =
        lookup disk [''data'', ''cache'', ''tmp'']"
proof -
  have cache: "fileCalls (out (resetCache install start)) =
     [CallGlob ''/data/cache/**'', CallRemoveAll ''/data/cache/thumbs'',
      CallRemoveAll ''/data/cache/tmp'']
   \<and> Stat disk ''/data/cache/thumbs'' = Inr (Dir [(''1.jpg'', File), (''2.jpg'', File)])
   \<and> fst (Remove ''/data/cache/thumbs'' disk) \<noteq> None
   \<and> snd (Remove ''/data/cache/thumbs'' disk) = disk
   \<and> RemoveAll ''/data/cache/thumbs'' disk = (None, delete [''data'', ''cache'', ''thumbs''] disk)
   \<and> lookup (delete [''data'', ''cache'', ''thumbs''] disk) [''data'', ''cache'', ''thumbs''] = None
   \<and> lookup (delete [''data'', ''cache'', ''thumbs''] disk) [''data'', ''cache'', ''tmp''] =
        lookup disk [''data'', ''cache'', ''tmp'']"
    using removal_primitive_by_stage
      [where e = install and s = start
        and matches = "[''/data/cache/thumbs'', ''/data/cache/tmp'']"
        and root = disk and name = "''/data/cache/thumbs''"
        and x = "(''1.jpg'', File)" and xs = "[(''2.jpg'', File)]"
        and cur = "[''data'', ''cache'', ''thumbs'']" and below = "[]"
        and c = "''thumbs''" and c' = "''tmp''" and q = "[''data'', ''cache'']"
        and r = "[]" and r' = "[]"]
      found_on_disk(1) thumbs_resolved install_patterns
    by (simp add: start_def)
  have albums: "fileCalls (out (snd (resetAlbumYaml install start))) =
     [CallGlob ''/data/albums/**/*.yml'', CallRemove ''/data/albums/2020/full.yml'',
      CallRemove ''/data/albums/2020/trip.yml'']
   \<and> lookup (delete [''data'', ''cache'', ''thumbs''] disk)
        [''data'', ''cache'', ''thumbs'', ''1.jpg''] = None"
    using removal_primitive_by_stage
      [where e = install and s = start
        and matches = "[''/data/albums/2020/full.yml'', ''/data/albums/2020/trip.yml'']"
        and root = disk and name = "''/data/cache/thumbs''"
        and x = "(''1.jpg'', File)" and xs = "[(''2.jpg'', File)]"
        and cur = "[''data'', ''cache'', ''thumbs'']" and below = "[''1.jpg'']"
        and c = "''thumbs''" and c' = "''tmp''" and q = "[''data'', ''cache'']"
        and r = "[]" and r' = "[]"]
      albums_found thumbs_resolved install_patterns
    by (simp add: start_def)
  have json:
    "fileCalls (out (resetSidecarJson (install\<lparr>conf_SidecarPath := ''/data/a[b]''\<rparr>) start)) =
     [CallGlob (QuoteMeta ''/data/a[b]'' @ ''/**/*.json''), CallRemove ''/data/a[b]/k/m.json'']"
    using removal_primitive_by_stage
      [where e = "install\<lparr>conf_SidecarPath := ''/data/a[b]''\<rparr>" and s = start
        and matches = "[''/data/a[b]/k/m.json'']"
        and root = disk and name = "''/data/cache/thumbs''"
        and x = "(''1.jpg'', File)" and xs = "[(''2.jpg'', File)]"
        and cur = "[''data'', ''cache'', ''thumbs'']" and below = "[]"
        and c = "''thumbs''" and c' = "''tmp''" and q = "[''data'', ''cache'']"
        and r = "[]" and r' = "[]"]
      found_on_disk(2)
    by (simp add: start_def)
  have yaml:
    "fileCalls (out (resetSidecarYaml (install\<lparr>conf_SidecarPath := ''/data/a[b]''\<rparr>) start)) =
     [CallGlob (QuoteMeta ''/data/a[b]'' @ ''/**/*.yml'')]"
    using removal_primitive_by_stage
      [where e = "install\<lparr>conf_SidecarPath := ''/data/a[b]''\<rparr>" and s = start
        and matches = "[]"
        and root = disk and name = "''/data/cache/thumbs''"
        and x = "(''1.jpg'', File)" and xs = "[(''2.jpg'', File)]"
        and cur = "[''data'', ''cache'', ''thumbs'']" and below = "[]"
        and c = "''thumbs''" and c' = "''tmp''" and q = "[''data'', ''cache'']"
        and r = "[]" and r' = "[]"]
      found_on_disk(3)
    by (simp add: start_def)
  from cache albums json yaml show ?thesis by blast
qed

section \<open>Properties of the enumeration\<close>

subsection \<open>Quoted strings as patterns\<close>

lemma QuoteMeta_Nil [simp]: "QuoteMeta [] = []"
  by (simp add: QuoteMeta_def)

lemma QuoteMeta_Cons:
  "QuoteMeta (c # s) = (if special c then backslash # c # QuoteMeta s else c # QuoteMeta s)"
  by (simp add: QuoteMeta_def)



lemma Separator_not_special [simp]: "\<not> special Separator"
  by (simp add: special_def Separator_def backslash_def)




lemma chunks_Nil [simp]: "chunks [] = []"
  by (simp add: chunks.simps)












subsection \<open>Paths as strings and as lists of elements\<close>






lemma absPath_simps [simp]:
  "absPath [] = []"
  "absPath (c # cs) = Separator # c @ absPath cs"
  by (simp_all add: absPath_def)


lemma absPath_empty [simp]: "absPath cs = [] \<longleftrightarrow> cs = []" "[] = absPath cs \<longleftrightarrow> cs = []"
  by (cases cs; simp)+


lemma QuoteMeta_empty [simp]: "QuoteMeta s = [] \<longleftrightarrow> s = []"
  by (cases s) (simp_all add: QuoteMeta_Cons)










subsection \<open>Join on clean absolute paths\<close>





subsection \<open>Listing a directory\<close>






subsection \<open>Glob on a quoted root\<close>















subsection \<open>The depth of the enumeration\<close>

text \<open>
  C2, evaluated on the scenario of the spec. The sidecar directory holds \<open>x/y/a.json\<close>,
  \<open>b.json\<close> and \<open>c.txt\<close>. In \<open>filepath.Glob\<close> the element \<open>**\<close> matches the names of one
  level, like \<open>*\<close>, so the pattern of \<open>resetSidecarJson\<close> asks for entries exactly two
  levels below the root: the enumeration returns nothing, neither \<open>b.json\<close> (one level
  below) nor \<open>x/y/a.json\<close> (three levels below), and the stage removes nothing and logs
  that it found no file. A file two levels below its root is found, as in the album
  directory.
\<close>

theorem sidecar_scenario_finds_nothing:
  "lookup disk [''data'', ''sidecar'', ''x'', ''y'', ''a.json''] = Some File
   \<and> lookup disk [''data'', ''sidecar'', ''b.json''] = Some File
   \<and> lookup disk [''data'', ''sidecar'', ''c.txt''] = Some File
   \<and> Glob (QuoteMeta ''/data/sidecar'' @ ''/**/*.json'') disk = Inr []
   \<and> fs (resetSidecarJson install start) = disk
   \<and> out (resetSidecarJson install start) =
       [CallGlob ''/data/sidecar/**/*.json'', Log Info ''found no *.json sidecar files'' []]
   \<and> Glob (QuoteMeta ''/data/albums'' @ ''/**/*.yml'') disk =
       Inr [''/data/albums/2020/full.yml'', ''/data/albums/2020/trip.yml'']"
  by code_simp

end
